theory Spec2Isabelle
  imports Complex_Main
begin

section \<open>Errors and results\<close>

text \<open>
  Every exception the modelled Python code can raise is a value. \<open>ModeMismatch\<close> is the
  error of \<open>check_mode\<close>; \<open>RuntimeError\<close> is what a tensor operation raises on
  incompatible shapes.
\<close>

datatype error =
    TypeError | AttributeError | NameError | KeyError | IndexError
  | AssertionError | NotImplementedError | ValueError | RuntimeError | ModeMismatch

type_synonym 'a result = "error + 'a"

definition and_then :: "'a result \<Rightarrow> ('a \<Rightarrow> 'b result) \<Rightarrow> 'b result" where
  "and_then m f = (case m of Inl e \<Rightarrow> Inl e | Inr v \<Rightarrow> f v)"

section \<open>Layers imported by \<open>encoder.py\<close>\<close>

text \<open>
  A layer object of \<open>layers.conv_layer\<close> or \<open>modules.residual_unit\<close> has a one-shot
  \<open>forward\<close> and a streaming \<open>inference\<close>. The streaming call updates the buffers the
  object carries, so it returns the object after the call together with the output;
  a layer can be called any number of times.
  The tensor type \<open>'t\<close> is left open: the blocks below only pass tensors on.
\<close>

codatatype 't layer =
  Layer (forward: "'t \<Rightarrow> 't result") (inference: "'t \<Rightarrow> ('t \<times> 't layer) result")

text \<open>
  The four classes \<open>encoder.py\<close> imports, as constructors. A convolution takes
  \<open>in_channels\<close>, \<open>out_channels\<close>, \<open>kernel_size\<close>, \<open>stride\<close> and \<open>bias\<close>; a
  residual unit takes \<open>in_channels\<close>, \<open>out_channels\<close> and \<open>dilation\<close>.
\<close>

record 't layers =
  NonCausalConv1d :: "nat \<Rightarrow> nat \<Rightarrow> nat \<Rightarrow> nat \<Rightarrow> bool \<Rightarrow> 't layer"
  CausalConv1d :: "nat \<Rightarrow> nat \<Rightarrow> nat \<Rightarrow> nat \<Rightarrow> bool \<Rightarrow> 't layer"
  NonCausalResidualUnit :: "nat \<Rightarrow> nat \<Rightarrow> nat \<Rightarrow> 't layer"
  CausalResidualUnit :: "nat \<Rightarrow> nat \<Rightarrow> nat \<Rightarrow> 't layer"

text \<open>
  Modelled from the spec: \<open>check_mode\<close> of \<open>models.utils\<close> is not among the sources.
  The spec says that invoking a streaming entry point on a component constructed in
  non-causal mode signals a mode-mismatch error, and that the causal variant supports
  the streaming entry point. The second argument is the calling method's name, which
  only the error message uses.
\<close>

definition check_mode :: "string \<Rightarrow> string \<Rightarrow> unit result" where
  "check_mode mode method = (if mode = ''noncausal'' then Inl ModeMismatch else Inr ())"

section \<open>\<open>EncoderBlock\<close>\<close>

record 't EncoderBlock =
  mode :: string
  res_units :: "'t layer list"
  num_res :: nat
  conv :: "'t layer"

text \<open>The constructor: the mode selects the layer classes; any other mode is refused.\<close>

definition EncoderBlock_init ::
  "'t layers \<Rightarrow> nat \<Rightarrow> nat \<Rightarrow> nat \<Rightarrow> nat list \<Rightarrow> bool \<Rightarrow> string \<Rightarrow> 't EncoderBlock result" where
  "EncoderBlock_init lib in_channels out_channels stride dilations bias md =
     (if md = ''noncausal'' then
        (let units = map (\<lambda>dilation. NonCausalResidualUnit lib in_channels in_channels dilation) dilations
         in Inr \<lparr>mode = md, res_units = units, num_res = length units,
                 conv = NonCausalConv1d lib in_channels out_channels (2 * stride) stride bias\<rparr>)
      else if md = ''causal'' then
        (let units = map (\<lambda>dilation. CausalResidualUnit lib in_channels in_channels dilation) dilations
         in Inr \<lparr>mode = md, res_units = units, num_res = length units,
                 conv = CausalConv1d lib in_channels out_channels (2 * stride) stride bias\<rparr>)
      else Inl NotImplementedError)"

text \<open>
  \<open>for idx in range(n): x = ms[idx](x)\<close>: the index list is \<open>[0..<n]\<close>; an index past
  the end of the module list raises.
\<close>

fun forward_each :: "'t layer list \<Rightarrow> nat list \<Rightarrow> 't \<Rightarrow> 't result" where
  "forward_each ms [] x = Inr x"
| "forward_each ms (idx # rest) x =
     (if idx < length ms then and_then (forward (ms ! idx) x) (forward_each ms rest)
      else Inl IndexError)"

definition EncoderBlock_forward :: "'t EncoderBlock \<Rightarrow> 't \<Rightarrow> 't result" where
  "EncoderBlock_forward self x =
     and_then (forward_each (res_units self) [0..<num_res self] x) (\<lambda>x.
     forward (conv self) x)"

text \<open>
  The streaming loop: each unit's \<open>inference\<close> leaves the unit updated in the list.
\<close>

fun inference_each :: "'t layer list \<Rightarrow> nat list \<Rightarrow> 't \<Rightarrow> ('t \<times> 't layer list) result" where
  "inference_each ms [] x = Inr (x, ms)"
| "inference_each ms (idx # rest) x =
     (if idx < length ms then
        and_then (inference (ms ! idx) x) (\<lambda>(y, m'). inference_each (ms[idx := m']) rest y)
      else Inl IndexError)"

definition EncoderBlock_inference :: "'t EncoderBlock \<Rightarrow> 't \<Rightarrow> ('t \<times> 't EncoderBlock) result" where
  "EncoderBlock_inference self x =
     and_then (check_mode (mode self) ''inference'') (\<lambda>_.
     and_then (inference_each (res_units self) [0..<num_res self] x) (\<lambda>(x, units).
     and_then (inference (conv self) x) (\<lambda>(x, c).
     Inr (x, self\<lparr>res_units := units, conv := c\<rparr>))))"

section \<open>Tensors\<close>

text \<open>
  An audio tensor has the axes (batch, channel, time): a list of batch entries, each
  a list of channels, each the list of its samples. A visual tensor has the axes
  (batch, RGB, height, width).
\<close>

type_synonym tensor = "real list list list"
type_synonym image = "real list list list list"

text \<open>
  \<open>torch.cat((a, b), 2)\<close>: the sizes of axes 0 and 1 must agree; the time series of
  each (batch, channel) position are joined, \<open>a\<close> first.
\<close>

definition cat2 :: "tensor \<Rightarrow> tensor \<Rightarrow> tensor result" where
  "cat2 a b =
     (if map length a = map length b then Inr (map2 (map2 (@)) a b) else Inl RuntimeError)"

text \<open>\<open>t.shape\<close>, as \<open>print\<close> shows it.\<close>

definition shape_of :: "tensor \<Rightarrow> nat list" where
  "shape_of t =
     (case t of [] \<Rightarrow> [0, 0, 0]
      | b # _ \<Rightarrow> (case b of [] \<Rightarrow> [length t, 0, 0] | c # _ \<Rightarrow> [length t, length b, length c]))"

section \<open>\<open>Encoder\<close>\<close>

text \<open>
  \<open>encode_RIR\<close>, \<open>encode_RIR_s\<close> (\<open>torch.nn.Sequential\<close> stacks) and the two visual
  networks are callables with learned weights. The visual networks take an image
  batch and return a (batch, 512, 4) tensor; their shape is the subject of the last
  section.
\<close>

record Encoder =
  mode :: string
  conv :: "tensor layer"
  conv_combine :: "tensor layer"
  combine_conv_blocks :: "tensor EncoderBlock list"
  seperate_conv_blocks_1 :: "tensor EncoderBlock list"
  encode_RIR :: "tensor \<Rightarrow> tensor result"
  encode_RIR_s :: "tensor \<Rightarrow> tensor result"
  combine_num_blocks :: nat
  seperate_num_blocks_speech :: nat
  out_channels :: nat
  visual_res_net1 :: "image \<Rightarrow> tensor result"
  visual_res_net2 :: "image \<Rightarrow> tensor result"

text \<open>
  What the constructor builds from \<open>torch\<close> and \<open>torchvision\<close>: the two sequential
  stacks, given \<open>input_channels\<close> and \<open>encode_channels\<close>, and the two visual networks.
\<close>

record torch_modules =
  Sequential_RIR :: "nat \<Rightarrow> nat \<Rightarrow> tensor \<Rightarrow> tensor result"
  Sequential_RIR_s :: "nat \<Rightarrow> nat \<Rightarrow> tensor \<Rightarrow> tensor result"
  VISURAL_RES_NET1 :: "image \<Rightarrow> tensor result"
  VISURAL_RES_NET2 :: "image \<Rightarrow> tensor result"

text \<open>
  The constructor's two loops \<open>for idx, stride in enumerate(strides)\<close>. The loop
  state is the block list, \<open>in_channels\<close>, and \<open>out_channels\<close> (unbound until a loop
  body has run).
\<close>

fun init_blocks ::
  "tensor layers \<Rightarrow> string \<Rightarrow> bool \<Rightarrow> nat \<Rightarrow> nat list \<Rightarrow> (nat \<times> nat) list \<Rightarrow>
   tensor EncoderBlock list \<times> nat \<times> nat option \<Rightarrow>
   (tensor EncoderBlock list \<times> nat \<times> nat option) result" where
  "init_blocks lib md bias encode_channels ratios [] st = Inr st"
| "init_blocks lib md bias encode_channels ratios ((idx, stride) # rest) (blocks, in_channels, oc) =
     (if idx < length ratios then
        (let out_channels = encode_channels * ratios ! idx in
         and_then (EncoderBlock_init lib in_channels out_channels stride [1, 3, 9] bias md) (\<lambda>b.
         init_blocks lib md bias encode_channels ratios rest
           (blocks @ [b], out_channels, Some out_channels)))
      else Inl IndexError)"

definition Encoder_init ::
  "tensor layers \<Rightarrow> torch_modules \<Rightarrow> nat \<Rightarrow> nat \<Rightarrow> nat list \<Rightarrow> nat list \<Rightarrow> nat list \<Rightarrow>
   nat list \<Rightarrow> nat list \<Rightarrow> nat list \<Rightarrow> nat \<Rightarrow> bool \<Rightarrow> string \<Rightarrow> Encoder result" where
  "Encoder_init lib torch input_channels encode_channels combine_channel_ratios
     seperate_channel_ratios_speech seperate_channel_ratios_rir combine_strides
     seperate_strides_speech seperate_strides_rir kernel_size bias md =
     (if length combine_channel_ratios \<noteq> length combine_strides then Inl AssertionError
      else if length seperate_channel_ratios_speech \<noteq> length seperate_strides_speech
        then Inl AssertionError
      else if length seperate_channel_ratios_rir \<noteq> length seperate_strides_rir
        then Inl AssertionError
      else if md \<noteq> ''noncausal'' \<and> md \<noteq> ''causal'' then Inl NotImplementedError
      else
        (let Conv1d = (if md = ''noncausal'' then NonCausalConv1d lib else CausalConv1d lib) in
         and_then (init_blocks lib md bias encode_channels combine_channel_ratios
                     (enumerate 0 combine_strides) ([], encode_channels, None))
           (\<lambda>(cblocks, in_channels, oc).
         and_then (init_blocks lib md bias encode_channels seperate_channel_ratios_speech
                     (enumerate 0 seperate_strides_speech) ([], in_channels, oc))
           (\<lambda>(sblocks, _, oc).
         (case oc of
            None \<Rightarrow> Inl NameError
          | Some out_ch \<Rightarrow>
              Inr \<lparr>mode = md,
                   conv = Conv1d input_channels encode_channels kernel_size 1 False,
                   conv_combine = Conv1d input_channels input_channels 3 1 False,
                   combine_conv_blocks = cblocks,
                   seperate_conv_blocks_1 = sblocks,
                   encode_RIR = Sequential_RIR torch input_channels encode_channels,
                   encode_RIR_s = Sequential_RIR_s torch input_channels encode_channels,
                   combine_num_blocks = length cblocks,
                   seperate_num_blocks_speech = length sblocks,
                   out_channels = out_ch,
                   visual_res_net1 = VISURAL_RES_NET1 torch,
                   visual_res_net2 = VISURAL_RES_NET2 torch\<rparr>)))))"

text \<open>\<open>for i in range(n): x = blocks[i](x)\<close> over encoder blocks.\<close>

fun blocks_each :: "'t EncoderBlock list \<Rightarrow> nat list \<Rightarrow> 't \<Rightarrow> 't result" where
  "blocks_each bs [] x = Inr x"
| "blocks_each bs (i # rest) x =
     (if i < length bs then and_then (EncoderBlock_forward (bs ! i) x) (blocks_each bs rest)
      else Inl IndexError)"

text \<open>
  \<open>Encoder.forward\<close>. The combine convolution's output feeds both branches; the
  speech branch is the wide convolution and the speech blocks, the RIR branch is the
  sequential stack.
\<close>

definition Encoder_forward ::
  "Encoder \<Rightarrow> tensor \<Rightarrow> image \<Rightarrow> image \<Rightarrow> (tensor \<times> tensor) result" where
  "Encoder_forward self x mi ci =
     and_then (visual_res_net1 self mi) (\<lambda>mi_code.
     and_then (visual_res_net2 self ci) (\<lambda>ci_code.
     and_then (forward (conv_combine self) x) (\<lambda>x_combine.
     and_then (forward (conv self) x_combine) (\<lambda>x_speech.
     (let x_rir = x_combine in
     and_then (blocks_each (seperate_conv_blocks_1 self)
                 [0..<seperate_num_blocks_speech self] x_speech) (\<lambda>x_speech.
     and_then (encode_RIR self x_rir) (\<lambda>x_rir.
     and_then (cat2 x_speech ci_code) (\<lambda>x_speech_AV.
     and_then (cat2 x_rir mi_code) (\<lambda>x_rir_AV.
     Inr (x_speech_AV, x_rir_AV))))))))))"

text \<open>
  \<open>Encoder.encode\<close>: the mode check, then the body of \<open>forward\<close> with two \<open>print\<close>
  calls after the visual networks. The first component is what was printed, also
  when a later step raises.
\<close>

definition Encoder_encode ::
  "Encoder \<Rightarrow> tensor \<Rightarrow> image \<Rightarrow> image \<Rightarrow> (string \<times> nat list) list \<times> (tensor \<times> tensor) result" where
  "Encoder_encode self x mi ci =
     (case check_mode (mode self) ''encode'' of
        Inl e \<Rightarrow> ([], Inl e)
      | Inr _ \<Rightarrow>
         (case visual_res_net1 self mi of
            Inl e \<Rightarrow> ([], Inl e)
          | Inr mi_code \<Rightarrow>
             (case visual_res_net2 self ci of
                Inl e \<Rightarrow> ([], Inl e)
              | Inr ci_code \<Rightarrow>
                 ([(''mi_code shape : '', shape_of mi_code),
                   (''ci_code shape : '', shape_of ci_code)],
                  and_then (forward (conv_combine self) x) (\<lambda>x_combine.
                  and_then (forward (conv self) x_combine) (\<lambda>x_speech.
                  (let x_rir = x_combine in
                  and_then (blocks_each (seperate_conv_blocks_1 self)
                              [0..<seperate_num_blocks_speech self] x_speech) (\<lambda>x_speech.
                  and_then (encode_RIR self x_rir) (\<lambda>x_rir.
                  and_then (cat2 x_speech ci_code) (\<lambda>x_speech_AV.
                  and_then (cat2 x_rir mi_code) (\<lambda>x_rir_AV.
                  Inr (x_speech_AV, x_rir_AV))))))))))))"

text \<open>
  The two branches before the concatenation, for stating what \<open>forward\<close> pairs with
  what.
\<close>

definition speech_branch :: "Encoder \<Rightarrow> tensor \<Rightarrow> tensor result" where
  "speech_branch self x =
     and_then (forward (conv_combine self) x) (\<lambda>x_combine.
     and_then (forward (conv self) x_combine) (\<lambda>x_speech.
     blocks_each (seperate_conv_blocks_1 self) [0..<seperate_num_blocks_speech self] x_speech))"

definition rir_branch :: "Encoder \<Rightarrow> tensor \<Rightarrow> tensor result" where
  "rir_branch self x =
     and_then (forward (conv_combine self) x) (\<lambda>x_combine. encode_RIR self x_combine)"

section \<open>\<open>nn.Module.__call__\<close> on an \<open>Encoder\<close>\<close>

text \<open>
  Calling a module passes the positional arguments on to \<open>forward\<close>.
  \<open>Encoder.forward(self, x, mi, ci)\<close> has three required parameters and no defaults:
  a call with the audio tensor and any number of further arguments other than two
  raises \<open>TypeError\<close> before the body runs.
\<close>

definition Encoder_call :: "Encoder \<Rightarrow> tensor \<Rightarrow> image list \<Rightarrow> (tensor \<times> tensor) result" where
  "Encoder_call self x rest =
     (case rest of [mi, ci] \<Rightarrow> Encoder_forward self x mi ci | _ \<Rightarrow> Inl TypeError)"

section \<open>Floating-point arithmetic\<close>

text \<open>
  A finite floating-point number is a real number, and what \<open>torch\<close>, \<open>numpy\<close> and
  \<open>sklearn\<close> compute is the rounded result of each operation. The rounded operations
  are parameters of the model, and nothing is assumed of them: \<open>float32\<close> is the
  cast to 32 bits (\<open>dtype=torch.float\<close>, \<open>astype(np.float32)\<close>), the others are the
  64-bit addition, subtraction, multiplication, division and square root, and
  \<open>np.sum\<close> along an axis, whose order of additions is \<open>numpy\<close>'s own.
\<close>

record floating_point =
  float32 :: "real \<Rightarrow> real"
  fl_add :: "real \<Rightarrow> real \<Rightarrow> real"
  fl_sub :: "real \<Rightarrow> real \<Rightarrow> real"
  fl_mul :: "real \<Rightarrow> real \<Rightarrow> real"
  fl_div :: "real \<Rightarrow> real \<Rightarrow> real"
  fl_sqrt :: "real \<Rightarrow> real"
  fl_sum :: "real list \<Rightarrow> real"

section \<open>\<open>StandardScaler\<close>\<close>

text \<open>
  What \<open>audio_analysis\<close> hands to the scaler: a \<open>numpy\<close> array of two axes
  (time, channel), or of three axes when \<open>squeeze(0)\<close> found a batch axis other
  than 1.
\<close>

datatype ndarray = Array2 "real list list" | Array3 "real list list list"

text \<open>
  The attributes a fitted \<open>sklearn.preprocessing.StandardScaler\<close> carries. A fresh
  scaler has none of them (\<open>None\<close>); reading \<open>mean_\<close> there raises \<open>AttributeError\<close>.
  The fields \<open>fitted_mean\<close>, \<open>fitted_var\<close>, \<open>fitted_scale\<close> and \<open>n_samples_seen\<close>
  are the attributes \<open>mean_\<close>, \<open>var_\<close>, \<open>scale_\<close> and \<open>n_samples_seen_\<close>.
\<close>

record fitted =
  fitted_mean :: "real list"
  fitted_var :: "real list"
  fitted_scale :: "real list"
  n_samples_seen :: nat

type_synonym StandardScaler = "fitted option"

definition column :: "real list list \<Rightarrow> nat \<Rightarrow> real list" where
  "column X j = map (\<lambda>row. row ! j) X"

text \<open>
  \<open>_incremental_mean_and_var\<close> on one feature column: the update of Chan, Golub and
  LeVeque that \<open>partial_fit\<close> applies, with \<open>last_sample_count = 0\<close> on the first
  call. Every arithmetic step is the rounded operation; a sample count is an integer
  and exact.
\<close>

definition incremental_mean_and_var ::
  "floating_point \<Rightarrow> real list \<Rightarrow> real \<Rightarrow> real \<Rightarrow> nat \<Rightarrow> real \<times> real" where
  "incremental_mean_and_var fp col last_mean last_variance last_sample_count =
     (let last_sum = fl_mul fp last_mean (real last_sample_count);
          new_sum = fl_sum fp col;
          new_sample_count = length col;
          updated_sample_count = last_sample_count + new_sample_count;
          updated_mean = fl_div fp (fl_add fp last_sum new_sum) (real updated_sample_count);
          T = fl_div fp new_sum (real new_sample_count);
          temp = map (\<lambda>v. fl_sub fp v T) col;
          correction = fl_sum fp temp;
          new_unnormalized_variance =
            fl_sub fp (fl_sum fp (map (\<lambda>v. fl_mul fp v v) temp))
              (fl_div fp (fl_mul fp correction correction) (real new_sample_count));
          last_unnormalized_variance = fl_mul fp last_variance (real last_sample_count);
          last_over_new_count = fl_div fp (real last_sample_count) (real new_sample_count);
          updated_unnormalized_variance =
            (if last_sample_count = 0 then new_unnormalized_variance
             else (let d = fl_sub fp (fl_div fp last_sum last_over_new_count) new_sum in
                   fl_add fp (fl_add fp last_unnormalized_variance new_unnormalized_variance)
                     (fl_mul fp (fl_div fp last_over_new_count (real updated_sample_count))
                        (fl_mul fp d d))));
          updated_variance = fl_div fp updated_unnormalized_variance (real updated_sample_count)
      in (updated_mean, updated_variance))"

text \<open>The machine epsilon of a 64-bit float.\<close>

definition eps :: real where
  "eps = 1 / 2 ^ 52"

text \<open>
  \<open>_is_constant_feature\<close> and \<open>_handle_zeros_in_scale\<close>: a feature whose variance is
  within rounding of zero gets the scale 1, so that scaling by it changes nothing.
\<close>

definition is_constant_feature :: "floating_point \<Rightarrow> real \<Rightarrow> real \<Rightarrow> nat \<Rightarrow> bool" where
  "is_constant_feature fp var mean n_samples =
     (let m = fl_mul fp (fl_mul fp (real n_samples) mean) eps;
          upper_bound = fl_add fp (fl_mul fp (fl_mul fp (real n_samples) eps) var) (fl_mul fp m m)
      in var \<le> upper_bound)"

definition handle_zeros_in_scale :: "real \<Rightarrow> bool \<Rightarrow> real" where
  "handle_zeros_in_scale scale constant_mask = (if constant_mask then 1 else scale)"

text \<open>
  \<open>partial_fit\<close>. Input validation refuses an array that is not two-dimensional, has
  no sample or no feature, or whose feature count differs from the one seen before.
  (A \<open>numpy\<close> array is rectangular; a ragged list of rows is refused as well.)
\<close>

definition partial_fit :: "floating_point \<Rightarrow> StandardScaler \<Rightarrow> ndarray \<Rightarrow> StandardScaler result" where
  "partial_fit fp self A =
     (case A of
        Array3 _ \<Rightarrow> Inl ValueError
      | Array2 X \<Rightarrow>
         (case X of
            [] \<Rightarrow> Inl ValueError
          | row # _ \<Rightarrow>
             (let n_features = length row in
              if n_features = 0 \<or> list_ex (\<lambda>r. length r \<noteq> n_features) X then Inl ValueError
              else if (case self of None \<Rightarrow> False | Some s \<Rightarrow> length (fitted_mean s) \<noteq> n_features)
                then Inl ValueError
              else
                (let last_mean = (case self of None \<Rightarrow> replicate n_features 0 | Some s \<Rightarrow> fitted_mean s);
                     last_var = (case self of None \<Rightarrow> replicate n_features 0 | Some s \<Rightarrow> fitted_var s);
                     last_count = (case self of None \<Rightarrow> 0 | Some s \<Rightarrow> n_samples_seen s);
                     upd = map (\<lambda>j. incremental_mean_and_var fp (column X j)
                                       (last_mean ! j) (last_var ! j) last_count) [0..<n_features];
                     n = last_count + length X
                 in Inr (Some \<lparr>fitted_mean = map fst upd, fitted_var = map snd upd,
                                fitted_scale = map (\<lambda>(m, v). handle_zeros_in_scale (fl_sqrt fp v)
                                                (is_constant_feature fp v m n)) upd,
                                n_samples_seen = n\<rparr>)))))"

section \<open>\<open>StatisticMain\<close>\<close>

text \<open>
  The analyzer is a \<open>Generator\<close> of \<open>models.autoencoder.AudioDec\<close>, built from a
  checkpoint. The driver uses five callables of it. The encoder is called with
  positional arguments: the audio tensor, then the others. A quantizer returns a
  triple of which the driver keeps the first component; that component is the
  callable's result here.
\<close>

record analyzer =
  encoder :: "tensor \<Rightarrow> image list \<Rightarrow> (tensor \<times> tensor) result"
  projector_speech :: "tensor \<Rightarrow> tensor result"
  quantizer_speech :: "tensor \<Rightarrow> tensor result"
  projector_rir :: "tensor \<Rightarrow> tensor result"
  quantizer_rir :: "tensor \<Rightarrow> tensor result"

text \<open>\<open>zq.squeeze(0)\<close> drops the batch axis when it has size 1 and is a no-op otherwise.\<close>

definition squeeze0 :: "tensor \<Rightarrow> ndarray" where
  "squeeze0 t = (case t of [m] \<Rightarrow> Array2 m | _ \<Rightarrow> Array3 t)"

definition transpose10 :: "ndarray \<Rightarrow> ndarray" where
  "transpose10 A = (case A of Array2 m \<Rightarrow> Array2 (transpose m) | Array3 t \<Rightarrow> Array3 (transpose t))"

text \<open>
  \<open>audio_analysis\<close>: the utterance, an array (T, C), is cast to 32-bit floats and
  becomes the tensor (1, C, T); the encoder is called with that tensor alone.
\<close>

definition audio_analysis ::
  "floating_point \<Rightarrow> analyzer \<Rightarrow> real list list \<Rightarrow> (ndarray \<times> ndarray) result" where
  "audio_analysis fp an audio =
     (let x = map (map (float32 fp)) audio;
          x = [transpose x] in
      and_then (encoder an x []) (\<lambda>(x_speech, x_rir).
      and_then (projector_speech an x_speech) (\<lambda>z_speech.
      and_then (quantizer_speech an z_speech) (\<lambda>zq_speech.
      and_then (projector_rir an x_rir) (\<lambda>z_rir.
      and_then (quantizer_rir an z_rir) (\<lambda>zq_rir.
      Inr (transpose10 (squeeze0 zq_speech), transpose10 (squeeze0 zq_rir))))))))"

text \<open>
  The driver after \<open>load_dataset\<close> and \<open>load_analyzer\<close>: the two output paths of the
  configuration, the analyzer and the utterances of the dataset.
\<close>

record StatisticMain =
  stats_path_speech :: string
  stats_path_rir :: string
  analyzer :: analyzer
  dataset :: "real list list list"

text \<open>
  The loop of \<open>run\<close>, \<open>for idx, x in enumerate(pbar, 1)\<close>. Its state is the two
  scalers and \<open>idx\<close>, which is unbound until the body has run once.
\<close>

fun statistic_loop ::
  "floating_point \<Rightarrow> analyzer \<Rightarrow> nat \<Rightarrow> real list list list \<Rightarrow>
   StandardScaler \<times> StandardScaler \<times> nat option \<Rightarrow>
   (StandardScaler \<times> StandardScaler \<times> nat option) result" where
  "statistic_loop fp an k [] st = Inr st"
| "statistic_loop fp an k (x # rest) (scaler_speech, scaler_rir, idx) =
     and_then (audio_analysis fp an x) (\<lambda>(zq_speech, zq_rir).
     and_then (partial_fit fp scaler_speech zq_speech) (\<lambda>scaler_speech.
     and_then (partial_fit fp scaler_rir zq_rir) (\<lambda>scaler_rir.
     statistic_loop fp an (Suc k) rest (scaler_speech, scaler_rir, Some k))))"

text \<open>
  A file written by \<open>np.save(path, arr.astype(np.float32), allow_pickle=False)\<close>.
  \<open>astype\<close> rounds every element to the target type.
\<close>

datatype dtype = Float32 | Float64

record npy_file =
  path :: string
  file_dtype :: dtype
  rows :: "real list list"
  allow_pickle :: bool

text \<open>\<open>np.stack([a, b], axis=0)\<close> of two one-dimensional arrays of the same length.\<close>

definition np_stack :: "real list \<Rightarrow> real list \<Rightarrow> real list list result" where
  "np_stack a b = (if length a = length b then Inr [a, b] else Inl ValueError)"

definition np_save_float32 :: "(real \<Rightarrow> real) \<Rightarrow> string \<Rightarrow> real list list \<Rightarrow> npy_file" where
  "np_save_float32 f32 p arr =
     \<lparr>path = p, file_dtype = Float32, rows = map (map f32) arr, allow_pickle = False\<rparr>"

text \<open>
  \<open>run\<close>: the loop, then the two stacks and saves, then the log line that reads
  \<open>idx\<close>. The second component is the list of files written, in order, also
  when a later statement raises.
\<close>

definition run :: "floating_point \<Rightarrow> StatisticMain \<Rightarrow> nat result \<times> npy_file list" where
  "run fp self =
     (case statistic_loop fp (analyzer self) 1 (dataset self) (None, None, None) of
        Inl e \<Rightarrow> (Inl e, [])
      | Inr (scaler_speech, scaler_rir, idx) \<Rightarrow>
         (case scaler_speech of
            None \<Rightarrow> (Inl AttributeError, [])
          | Some ss \<Rightarrow>
             (case np_stack (fitted_mean ss) (fitted_scale ss) of
                Inl e \<Rightarrow> (Inl e, [])
              | Inr stats_speech \<Rightarrow>
                 (let w1 = np_save_float32 (float32 fp) (stats_path_speech self) stats_speech in
                  case scaler_rir of
                    None \<Rightarrow> (Inl AttributeError, [w1])
                  | Some sr \<Rightarrow>
                     (case np_stack (fitted_mean sr) (fitted_scale sr) of
                        Inl e \<Rightarrow> (Inl e, [w1])
                      | Inr stats_rir \<Rightarrow>
                         (let w2 = np_save_float32 (float32 fp) (stats_path_rir self) stats_rir in
                          case idx of
                            None \<Rightarrow> (Inl NameError, [w1, w2])
                          | Some n \<Rightarrow> (Inr n, [w1, w2])))))))"

text \<open>An array (T, C) with at least one row and one column.\<close>

definition well_shaped :: "nat \<Rightarrow> real list list \<Rightarrow> bool" where
  "well_shaped C X = (X \<noteq> [] \<and> 0 < C \<and> list_all (\<lambda>r. length r = C) X)"

text \<open>The code arrays of one utterance, when the analysis returns two-axis arrays.\<close>

definition speech_code :: "floating_point \<Rightarrow> analyzer \<Rightarrow> real list list \<Rightarrow> real list list" where
  "speech_code fp an x = (case audio_analysis fp an x of Inr (Array2 X, _) \<Rightarrow> X | _ \<Rightarrow> [])"

definition rir_code :: "floating_point \<Rightarrow> analyzer \<Rightarrow> real list list \<Rightarrow> real list list" where
  "rir_code fp an x = (case audio_analysis fp an x of Inr (_, Array2 Y) \<Rightarrow> Y | _ \<Rightarrow> [])"

definition analysis_ok ::
  "floating_point \<Rightarrow> analyzer \<Rightarrow> nat \<Rightarrow> nat \<Rightarrow> real list list \<Rightarrow> bool" where
  "analysis_ok fp an C1 C2 x =
     (audio_analysis fp an x = Inr (Array2 (speech_code fp an x), Array2 (rir_code fp an x)) \<and>
      well_shaped C1 (speech_code fp an x) \<and> well_shaped C2 (rir_code fp an x))"

section \<open>Shapes\<close>

text \<open>
  The shape-level reading of the same code: a tensor is replaced by its shape, the
  list of its axis sizes, and each operation by what it does to the shape,
  \<open>RuntimeError\<close> where the operation refuses the shape.
\<close>

type_synonym shape = "nat list"

text \<open>A layer without buffers: streaming computes what \<open>forward\<close> computes.\<close>

primcorec stateless :: "('t \<Rightarrow> 't result) \<Rightarrow> 't layer" where
  "forward (stateless f) = f"
| "inference (stateless f) =
     (\<lambda>x. map_sum id (map_prod id (\<lambda>_. stateless f)) (map_sum id (\<lambda>y. (y, ())) (f x)))"

text \<open>
  Modelled from the spec: the residual units of \<open>modules.residual_unit\<close> are not among
  the sources. The spec says that a residual unit, given an input (batch, C, T),
  returns an output of identical shape; that the causal variant supports streaming,
  and that the streaming entry point of a non-causal unit signals a mode-mismatch
  error. An input whose channel count is not the unit's surfaces as a
  tensor-operation failure.
\<close>

definition residual_shape :: "nat \<Rightarrow> shape \<Rightarrow> shape result" where
  "residual_shape in_ch sh =
     (case sh of
        [B, C, T] \<Rightarrow> if C = in_ch then Inr [B, C, T] else Inl RuntimeError
      | _ \<Rightarrow> Inl RuntimeError)"

definition CausalResidualUnit_shape :: "nat \<Rightarrow> nat \<Rightarrow> nat \<Rightarrow> shape layer" where
  "CausalResidualUnit_shape in_ch out_ch dilation = stateless (residual_shape in_ch)"

definition NonCausalResidualUnit_shape :: "nat \<Rightarrow> nat \<Rightarrow> nat \<Rightarrow> shape layer" where
  "NonCausalResidualUnit_shape in_ch out_ch dilation =
     Layer (residual_shape in_ch) (\<lambda>sh. Inl ModeMismatch)"

text \<open>
  Modelled from the spec: the convolutions of \<open>layers.conv_layer\<close> are not among the
  sources. The spec says that the block's strided convolution, of kernel size twice
  the stride, takes (B, Cin, T) to (B, Cout, T/stride) when the stride divides T, and
  that the result is undefined otherwise: the length it has then is the parameter
  \<open>g\<close>, of which nothing is known. The two modes differ in streaming as the
  residual units do.
\<close>

definition conv_shape :: "(nat \<Rightarrow> nat) \<Rightarrow> nat \<Rightarrow> nat \<Rightarrow> nat \<Rightarrow> shape \<Rightarrow> shape result" where
  "conv_shape g in_ch out_ch stride sh =
     (case sh of
        [B, C, T] \<Rightarrow>
          if C \<noteq> in_ch then Inl RuntimeError
          else if 0 < stride \<and> stride dvd T then Inr [B, out_ch, T div stride]
          else Inr [B, out_ch, g T]
      | _ \<Rightarrow> Inl RuntimeError)"

definition CausalConv1d_shape ::
  "(nat \<Rightarrow> nat) \<Rightarrow> nat \<Rightarrow> nat \<Rightarrow> nat \<Rightarrow> nat \<Rightarrow> bool \<Rightarrow> shape layer" where
  "CausalConv1d_shape g in_ch out_ch kernel_size stride bias =
     stateless (conv_shape g in_ch out_ch stride)"

definition NonCausalConv1d_shape ::
  "(nat \<Rightarrow> nat) \<Rightarrow> nat \<Rightarrow> nat \<Rightarrow> nat \<Rightarrow> nat \<Rightarrow> bool \<Rightarrow> shape layer" where
  "NonCausalConv1d_shape g in_ch out_ch kernel_size stride bias =
     Layer (conv_shape g in_ch out_ch stride) (\<lambda>sh. Inl ModeMismatch)"

definition spec_layers :: "(nat \<Rightarrow> nat) \<Rightarrow> shape layers" where
  "spec_layers g =
     \<lparr>NonCausalConv1d = NonCausalConv1d_shape g, CausalConv1d = CausalConv1d_shape g,
      NonCausalResidualUnit = NonCausalResidualUnit_shape,
      CausalResidualUnit = CausalResidualUnit_shape\<rparr>"

section \<open>The visual networks\<close>

text \<open>
  The shape of an image batch is (B, C, H, W). The output size of a convolution or
  pooling window of size \<open>k\<close>, stride \<open>s\<close> and padding \<open>p\<close> along an axis of size
  \<open>n\<close>; the window must fit into the padded axis.
\<close>

type_synonym shape4 = "nat \<times> nat \<times> nat \<times> nat"

definition conv_out :: "nat \<Rightarrow> nat \<Rightarrow> nat \<Rightarrow> nat \<Rightarrow> nat result" where
  "conv_out n k s p = (if n + 2 * p < k then Inl RuntimeError else Inr ((n + 2 * p - k) div s + 1))"

definition Conv2d :: "nat \<Rightarrow> nat \<Rightarrow> nat \<Rightarrow> nat \<Rightarrow> nat \<Rightarrow> shape4 \<Rightarrow> shape4 result" where
  "Conv2d in_ch out_ch kernel_size stride padding sh =
     (case sh of (B, C, H, W) \<Rightarrow>
        if C \<noteq> in_ch then Inl RuntimeError
        else and_then (conv_out H kernel_size stride padding) (\<lambda>H'.
             and_then (conv_out W kernel_size stride padding) (\<lambda>W'.
             Inr (B, out_ch, H', W'))))"

text \<open>
  Batch normalisation keeps the shape. A module is in training mode when
  constructed and in evaluation mode after \<open>eval()\<close>, all its submodules with it; in
  training mode batch normalisation raises \<open>ValueError\<close> on an input with one value
  per channel, that is, when the sizes of all axes but the channel axis multiply
  to 1.
\<close>

definition BatchNorm2d :: "bool \<Rightarrow> nat \<Rightarrow> shape4 \<Rightarrow> shape4 result" where
  "BatchNorm2d training num_features sh =
     (case sh of (B, C, H, W) \<Rightarrow>
        if training \<and> B * H * W = 1 then Inl ValueError
        else if C = num_features then Inr sh else Inl RuntimeError)"

definition MaxPool2d :: "nat \<Rightarrow> nat \<Rightarrow> nat \<Rightarrow> shape4 \<Rightarrow> shape4 result" where
  "MaxPool2d kernel_size stride padding sh =
     (case sh of (B, C, H, W) \<Rightarrow>
        and_then (conv_out H kernel_size stride padding) (\<lambda>H'.
        and_then (conv_out W kernel_size stride padding) (\<lambda>W'.
        Inr (B, C, H', W'))))"

text \<open>Batch normalisation accepts an input of these sizes in this mode.\<close>

definition bn_ok :: "bool \<Rightarrow> nat \<Rightarrow> nat \<Rightarrow> nat \<Rightarrow> bool" where
  "bn_ok training B h w = (\<not> (training \<and> B * h * w = 1))"

text \<open>
  A residual block of the image network: two 3x3 convolutions, the first with the
  block's stride, added to the input, which passes through a 1x1 convolution of the
  same stride when the stride or the channel count changes. The addition needs equal
  shapes.
\<close>

definition BasicBlock :: "bool \<Rightarrow> nat \<Rightarrow> nat \<Rightarrow> nat \<Rightarrow> shape4 \<Rightarrow> shape4 result" where
  "BasicBlock training inplanes planes stride x =
     and_then (Conv2d inplanes planes 3 stride 1 x) (\<lambda>out.
     and_then (BatchNorm2d training planes out) (\<lambda>out.
     and_then (Conv2d planes planes 3 1 1 out) (\<lambda>out.
     and_then (BatchNorm2d training planes out) (\<lambda>out.
     and_then (if stride \<noteq> 1 \<or> inplanes \<noteq> planes
               then and_then (Conv2d inplanes planes 1 stride 0 x) (BatchNorm2d training planes)
               else Inr x) (\<lambda>identity.
     if out = identity then Inr out else Inl RuntimeError)))))"

definition make_layer :: "bool \<Rightarrow> nat \<Rightarrow> nat \<Rightarrow> nat \<Rightarrow> shape4 \<Rightarrow> shape4 result" where
  "make_layer training inplanes planes stride x =
     and_then (BasicBlock training inplanes planes stride x) (BasicBlock training planes planes 1)"

definition AdaptiveAvgPool2d_1 :: "shape4 \<Rightarrow> shape4 result" where
  "AdaptiveAvgPool2d_1 sh =
     (case sh of (B, C, H, W) \<Rightarrow> if H = 0 \<or> W = 0 then Inl RuntimeError else Inr (B, C, 1, 1))"

text \<open>
  \<open>feature_extraction\<close>: the new first convolution, then the children of
  \<open>torchvision\<close>'s \<open>resnet18\<close> from the second to the last but one: \<open>bn1\<close>, \<open>relu\<close>,
  \<open>maxpool\<close>, the four layers and \<open>avgpool\<close>.
\<close>

definition feature_extraction :: "bool \<Rightarrow> shape4 \<Rightarrow> shape4 result" where
  "feature_extraction training x =
     and_then (Conv2d 3 64 7 2 3 x) (\<lambda>x.
     and_then (BatchNorm2d training 64 x) (\<lambda>x.
     and_then (MaxPool2d 3 2 1 x) (\<lambda>x.
     and_then (make_layer training 64 64 1 x) (\<lambda>x.
     and_then (make_layer training 64 128 2 x) (\<lambda>x.
     and_then (make_layer training 128 256 2 x) (\<lambda>x.
     and_then (make_layer training 256 512 2 x) (\<lambda>x.
     AdaptiveAvgPool2d_1 x)))))))"

text \<open>
  The size of a spatial axis after one stage of stride 2, and at the last feature
  map, which is five such stages away from the image: the first convolution, the
  pooling, and the first block of each of the last three layers.
\<close>

definition halve :: "nat \<Rightarrow> nat" where
  "halve n = (n - 1) div 2 + 1"

definition layer4_size :: "nat \<Rightarrow> nat" where
  "layer4_size n = halve (halve (halve (halve (halve n))))"

text \<open>\<open>t.squeeze(-1)\<close> drops the last axis when its size is 1.\<close>

definition squeeze_last :: "shape \<Rightarrow> shape" where
  "squeeze_last sh = (if sh \<noteq> [] \<and> last sh = 1 then butlast sh else sh)"

text \<open>\<open>torch.nn.Linear\<close> acts on the last axis.\<close>

definition Linear :: "nat \<Rightarrow> nat \<Rightarrow> shape \<Rightarrow> shape result" where
  "Linear in_features out_features sh =
     (if sh \<noteq> [] \<and> last sh = in_features then Inr (butlast sh @ [out_features])
      else Inl RuntimeError)"

text \<open>\<open>t.reshape(...)\<close> needs the same number of elements.\<close>

definition reshape :: "shape \<Rightarrow> shape \<Rightarrow> shape result" where
  "reshape sh target = (if prod_list sh = prod_list target then Inr target else Inl RuntimeError)"

text \<open>
  \<open>torch.cat((a, b, c, d), 2)\<close>: the shapes must agree on every axis but the third,
  along which the sizes add up.
\<close>

definition cat_dim2 :: "shape list \<Rightarrow> shape result" where
  "cat_dim2 shs =
     (case shs of
        [] \<Rightarrow> Inl RuntimeError
      | sh # _ \<Rightarrow>
          if length sh < 3 then Inl IndexError
          else if list_ex (\<lambda>s. length s \<noteq> length sh \<or> s[2 := 0] \<noteq> sh[2 := 0]) shs
            then Inl RuntimeError
          else Inr (sh[2 := sum_list (map (\<lambda>s. s ! 2) shs)]))"

text \<open>\<open>shape[i]\<close> of \<open>pred.shape\<close>.\<close>

definition shape_item :: "shape \<Rightarrow> nat \<Rightarrow> nat result" where
  "shape_item sh i = (if i < length sh then Inr (sh ! i) else Inl IndexError)"

text \<open>
  \<open>VISURAL_RES_NET1.forward\<close> and \<open>VISURAL_RES_NET2.forward\<close>, which are the same
  statements; the first argument is the module's \<open>training\<close> flag.
  \<open>int(shape[1]/512)\<close> is the quotient rounded towards zero.
\<close>

definition VISURAL_RES_NET1_forward :: "bool \<Rightarrow> shape4 \<Rightarrow> shape result" where
  "VISURAL_RES_NET1_forward training inputs =
     and_then (feature_extraction training inputs) (\<lambda>(B, C, H, W).
     (let audio_feature = squeeze_last (squeeze_last [B, C, H, W]) in
      and_then (Linear 512 (512 * 1) audio_feature) (\<lambda>pred.
      (let shape = pred in
       and_then (shape_item shape 0) (\<lambda>shape0.
       and_then (shape_item shape 1) (\<lambda>shape1.
       and_then (reshape pred [shape0, 512, shape1 div 512]) (\<lambda>pred.
       cat_dim2 [pred, pred, pred, pred])))))))"

definition VISURAL_RES_NET2_forward :: "bool \<Rightarrow> shape4 \<Rightarrow> shape result" where
  "VISURAL_RES_NET2_forward training inputs =
     and_then (feature_extraction training inputs) (\<lambda>(B, C, H, W).
     (let audio_feature = squeeze_last (squeeze_last [B, C, H, W]) in
      and_then (Linear 512 (512 * 1) audio_feature) (\<lambda>pred.
      (let shape = pred in
       and_then (shape_item shape 0) (\<lambda>shape0.
       and_then (shape_item shape 1) (\<lambda>shape1.
       and_then (reshape pred [shape0, 512, shape1 div 512]) (\<lambda>pred.
       cat_dim2 [pred, pred, pred, pred])))))))"

section \<open>\<open>TestMain.load_dataset\<close>\<close>

text \<open>\<open>os.path.join\<close> of two components on a POSIX system.\<close>

definition path_join :: "string \<Rightarrow> string \<Rightarrow> string" where
  "path_join a b =
     (if b \<noteq> [] \<and> hd b = CHR ''/'' then b
      else if a = [] \<or> last a = CHR ''/'' then a @ b
      else a @ ''/'' @ b)"

text \<open>
  The \<open>SingleDataset\<close> the method would construct, as the arguments of the
  constructor call.
\<close>

record SingleDataset =
  files :: "string list"
  query :: string
  return_utt_id :: bool
  subset_num :: int

text \<open>
  The attributes of the driver that \<open>load_dataset\<close> reads. The base class
  \<open>TestGEN\<close> of \<open>bin.test\<close> sets them; an attribute it does not set is \<open>None\<close>
  here and raises \<open>AttributeError\<close> when read. The configuration is the nested
  dictionary read as \<open>self.config['data']['subset'][subset]\<close>.
\<close>

record TestMain =
  config :: "(string \<rightharpoonup> string \<rightharpoonup> string \<rightharpoonup> string) option"
  data_reverb_path :: "string option"
  data_material_path :: "string option"
  data_image_path :: "string option"
  test_dataset :: "SingleDataset option"

definition getattr :: "'a option \<Rightarrow> 'a result" where
  "getattr a = (case a of None \<Rightarrow> Inl AttributeError | Some v \<Rightarrow> Inr v)"

definition getitem :: "('k \<rightharpoonup> 'v) \<Rightarrow> 'k \<Rightarrow> 'v result" where
  "getitem d k = (case d k of None \<Rightarrow> Inl KeyError | Some v \<Rightarrow> Inr v)"

text \<open>\<open>self.config['data']['subset'][subset]\<close>.\<close>

definition subset_dir :: "TestMain \<Rightarrow> string \<Rightarrow> string result" where
  "subset_dir self subset_name =
     and_then (getattr (config self)) (\<lambda>c.
     and_then (getitem c ''data'') (\<lambda>d.
     and_then (getitem d ''subset'') (\<lambda>s.
     getitem s subset_name)))"

text \<open>
  The names bound at module level in \<open>codecTest.py\<close>, each a module, a class or a
  function, and the local names of \<open>load_dataset\<close> at its \<open>assert\<close>. A name that is
  neither local nor global nor built in raises \<open>NameError\<close>; no built-in name is
  among those looked up here.
\<close>

datatype pyobject = Module | Class | Function | Str string

definition codecTest_globals :: "(string \<times> pyobject) list" where
  "codecTest_globals =
     [(''os'', Module), (''torch'', Module), (''logging'', Module), (''argparse'', Module),
      (''sf'', Module), (''SingleDataset'', Class), (''cp'', Module),
      (''fftconvolve'', Function), (''generator_audiodec'', Class),
      (''generator_hifigan'', Class), (''TestGEN'', Class), (''TestMain'', Class),
      (''main'', Function)]"

definition lookup_name :: "(string \<times> pyobject) list \<Rightarrow> string \<Rightarrow> pyobject result" where
  "lookup_name locals name =
     (case map_of locals name of
        Some v \<Rightarrow> Inr v
      | None \<Rightarrow> (case map_of codecTest_globals name of Some v \<Rightarrow> Inr v | None \<Rightarrow> Inl NameError))"

text \<open>
  \<open>load_dataset\<close>. The three directories are joined first; then the \<open>assert\<close>
  evaluates \<open>os.path.exists(data_path)\<close>, where \<open>os.path.exists\<close> raises
  \<open>TypeError\<close> on an object that is not a path and \<open>exists\<close> tells which paths
  the file system has; only then would the dataset be constructed.
\<close>

definition load_dataset :: "(string \<Rightarrow> bool) \<Rightarrow> TestMain \<Rightarrow> string \<Rightarrow> int \<Rightarrow> TestMain result" where
  "load_dataset exists self subset_name subset_n =
     and_then (subset_dir self subset_name) (\<lambda>d1.
     and_then (getattr (data_reverb_path self)) (\<lambda>p1.
     (let audio_rs_dir = path_join d1 p1 in
     and_then (subset_dir self subset_name) (\<lambda>d2.
     and_then (getattr (data_material_path self)) (\<lambda>p2.
     (let audio_material_dir = path_join d2 p2 in
     and_then (subset_dir self subset_name) (\<lambda>d3.
     and_then (getattr (data_image_path self)) (\<lambda>p3.
     (let audio_image_dir = path_join d3 p3 in
     and_then (lookup_name
                 [(''subset'', Str subset_name), (''audio_rs_dir'', Str audio_rs_dir),
                  (''audio_material_dir'', Str audio_material_dir),
                  (''audio_image_dir'', Str audio_image_dir)] ''data_path'') (\<lambda>data_path.
     (case data_path of
        Str p \<Rightarrow>
          if exists p then
            Inr (self\<lparr>test_dataset :=
                   Some \<lparr>files = [audio_rs_dir, audio_material_dir, audio_image_dir],
                         query = ''*.wav'', return_utt_id = True, subset_num = subset_n\<rparr>\<rparr>)
          else Inl AssertionError
      | _ \<Rightarrow> Inl TypeError)))))))))))"

section \<open>Small instances\<close>

text \<open>
  Stand-ins for the learned layers, small enough to evaluate: a convolution that keeps
  the first \<open>T div stride\<close> samples of every channel, a residual unit that returns its
  input, sequential stacks that return their input, and visual networks that return a
  constant code per image. None of them supports streaming.
\<close>

definition demo_conv :: "nat \<Rightarrow> nat \<Rightarrow> nat \<Rightarrow> nat \<Rightarrow> bool \<Rightarrow> tensor layer" where
  "demo_conv cin cout k stride bias =
     Layer (\<lambda>x. Inr (map (map (\<lambda>ts. take (length ts div stride) ts)) x)) (\<lambda>x. Inl RuntimeError)"

definition demo_unit :: "nat \<Rightarrow> nat \<Rightarrow> nat \<Rightarrow> tensor layer" where
  "demo_unit cin cout dilation = Layer Inr (\<lambda>x. Inl RuntimeError)"

definition demo_layers :: "tensor layers" where
  "demo_layers = \<lparr>NonCausalConv1d = demo_conv, CausalConv1d = demo_conv,
                   NonCausalResidualUnit = demo_unit, CausalResidualUnit = demo_unit\<rparr>"

definition demo_torch :: torch_modules where
  "demo_torch = \<lparr>Sequential_RIR = (\<lambda>_ _ x. Inr x), Sequential_RIR_s = (\<lambda>_ _ x. Inr x),
                  VISURAL_RES_NET1 = (\<lambda>img. Inr (map (\<lambda>_. [[7, 7, 7, 7]]) img)),
                  VISURAL_RES_NET2 = (\<lambda>img. Inr (map (\<lambda>_. [[9, 9, 9, 9]]) img))\<rparr>"

text \<open>
  An analyzer whose encoder accepts the audio tensor alone and returns it for both
  branches, with projectors and quantizers that return their input.
\<close>

definition demo_analyzer :: analyzer where
  "demo_analyzer = \<lparr>encoder = (\<lambda>x rest. Inr (x, x)), projector_speech = Inr,
     quantizer_speech = Inr, projector_rir = Inr, quantizer_rir = Inr\<rparr>"

text \<open>
  Arithmetic without rounding error. On small integers and their halves, as in the
  examples below, 64-bit floating-point arithmetic is exact as well.
\<close>

definition exact_arithmetic :: floating_point where
  "exact_arithmetic =
     \<lparr>float32 = (\<lambda>v. v), fl_add = (+), fl_sub = (-), fl_mul = (*), fl_div = (/),
      fl_sqrt = sqrt, fl_sum = sum_list\<rparr>"

text \<open>
  A test driver with every attribute set, whose configuration knows the subset
  \<open>test\<close> only, and a file system on which every path exists.
\<close>

definition demo_config :: "string \<rightharpoonup> string \<rightharpoonup> string \<rightharpoonup> string" where
  "demo_config = [''data'' \<mapsto> [''subset'' \<mapsto> [''test'' \<mapsto> ''corpus/test'']]]"

definition demo_test_main :: TestMain where
  "demo_test_main = \<lparr>config = Some demo_config, data_reverb_path = Some ''reverb'',
     data_material_path = Some ''material'', data_image_path = Some ''image'',
     test_dataset = None\<rparr>"

text \<open>The undefined length of the modelled convolution, fixed to 0.\<close>

definition no_length :: "nat \<Rightarrow> nat" where
  "no_length T = 0"

definition every_path_exists :: "string \<Rightarrow> bool" where
  "every_path_exists p = True"

section \<open>Properties of the encoder\<close>

lemma EncoderBlock_init_mode:
  "EncoderBlock_init lib i oc s d b md = Inr blk \<Longrightarrow> EncoderBlock.mode blk = md"
  by (auto simp: EncoderBlock_init_def Let_def split: if_splits)

lemma Encoder_init_mode:
  "Encoder_init lib torch ic ec ccr scrs scrr cs sss ssr k b md = Inr enc \<Longrightarrow> mode enc = md"
  by (auto simp: Encoder_init_def Let_def and_then_def
      split: if_splits sum.splits option.splits prod.splits)

lemma cat2_Inr: "cat2 a b = Inr c \<Longrightarrow> c = map2 (map2 (@)) a b"
  by (simp add: cat2_def split: if_splits)

text \<open>
  C2. Whenever \<open>Encoder.forward\<close> returns, the speech stream is the speech branch
  output joined along the time axis with the code of the scene image \<open>ci\<close>
  (\<open>visual_res_net2\<close>), and the RIR stream is the RIR branch output joined with the
  code of the material image \<open>mi\<close> (\<open>visual_res_net1\<close>).
\<close>

theorem forward_pairing:
  "Encoder_forward self x mi ci = Inr (x_speech_AV, x_rir_AV) \<Longrightarrow>
   \<exists>x_speech x_rir mi_code ci_code.
     speech_branch self x = Inr x_speech \<and> rir_branch self x = Inr x_rir \<and>
     visual_res_net1 self mi = Inr mi_code \<and> visual_res_net2 self ci = Inr ci_code \<and>
     cat2 x_speech ci_code = Inr x_speech_AV \<and> cat2 x_rir mi_code = Inr x_rir_AV \<and>
     x_speech_AV = map2 (map2 (@)) x_speech ci_code \<and>
     x_rir_AV = map2 (map2 (@)) x_rir mi_code"
  by (auto simp: Encoder_forward_def speech_branch_def rir_branch_def and_then_def Let_def
      dest: cat2_Inr split: sum.splits)

theorem forward_pairing_witness:
  "\<exists>enc. Encoder_init demo_layers demo_torch 1 1 [2] [8] [] [2] [2] [] 7 True ''noncausal'' = Inr enc \<and>
     Encoder_forward enc [[[1, 2, 3, 4]]] [[]] [[]]
       = Inr ([[[1, 2, 9, 9, 9, 9]]], [[[1, 2, 3, 4, 7, 7, 7, 7]]]) \<and>
     speech_branch enc [[[1, 2, 3, 4]]] = Inr [[[1, 2]]] \<and>
     rir_branch enc [[[1, 2, 3, 4]]] = Inr [[[1, 2, 3, 4]]] \<and>
     visual_res_net1 enc [[]] = Inr [[[7, 7, 7, 7]]] \<and>
     visual_res_net2 enc [[]] = Inr [[[9, 9, 9, 9]]]"
proof -
  obtain enc where e:
    "Encoder_init demo_layers demo_torch 1 1 [2] [8] [] [2] [2] [] 7 True ''noncausal'' = Inr enc"
    by (simp add: Encoder_init_def EncoderBlock_init_def and_then_def Let_def)
  have f: "Encoder_forward enc [[[1, 2, 3, 4]]] [[]] [[]]
       = Inr ([[[1, 2, 9, 9, 9, 9]]], [[[1, 2, 3, 4, 7, 7, 7, 7]]])"
    using e
    by (auto simp: Let_def Encoder_init_def EncoderBlock_init_def and_then_def Encoder_forward_def
        demo_layers_def demo_torch_def demo_conv_def demo_unit_def EncoderBlock_forward_def cat2_def)
  have v1: "visual_res_net1 enc [[]] = Inr [[[7, 7, 7, 7]]]"
    using e by (auto simp: Let_def Encoder_init_def EncoderBlock_init_def and_then_def demo_torch_def)
  have v2: "visual_res_net2 enc [[]] = Inr [[[9, 9, 9, 9]]]"
    using e by (auto simp: Let_def Encoder_init_def EncoderBlock_init_def and_then_def demo_torch_def)
  from forward_pairing [OF f] obtain x_speech x_rir where
    "speech_branch enc [[[1, 2, 3, 4]]] = Inr x_speech" "rir_branch enc [[[1, 2, 3, 4]]] = Inr x_rir"
    "[[[1, 2, 9, 9, 9, 9]]] = map2 (map2 (@)) x_speech [[[9, 9, 9, 9]]]"
    "[[[1, 2, 3, 4, 7, 7, 7, 7]]] = map2 (map2 (@)) x_rir [[[7, 7, 7, 7::real]]]"
    using v1 v2 by auto
  moreover have "speech_branch enc [[[1, 2, 3, 4]]] = Inr [[[1, 2]]]"
    using e
    by (auto simp: Let_def Encoder_init_def EncoderBlock_init_def and_then_def speech_branch_def
        demo_layers_def demo_conv_def demo_unit_def EncoderBlock_forward_def)
  moreover have "rir_branch enc [[[1, 2, 3, 4]]] = Inr [[[1, 2, 3, 4]]]"
    using e
    by (auto simp: Let_def Encoder_init_def EncoderBlock_init_def and_then_def rir_branch_def
        demo_layers_def demo_torch_def demo_conv_def)
  ultimately show ?thesis using e f v1 v2 by blast
qed

text \<open>
  C4. An \<open>EncoderBlock\<close> constructed with mode \<open>noncausal\<close> answers \<open>inference\<close> with
  the mode-mismatch error, and an \<open>Encoder\<close> constructed with mode \<open>noncausal\<close>
  answers \<open>encode\<close> with it, whatever the input and whatever the layers would do:
  nothing has been computed or printed.
\<close>

theorem noncausal_rejects_streaming:
  "(EncoderBlock_init lib i oc s d b ''noncausal'' = Inr blk \<longrightarrow>
      EncoderBlock_inference blk x = Inl ModeMismatch) \<and>
   (Encoder_init lib' torch ic ec ccr scrs scrr cs sss ssr k b' ''noncausal'' = Inr enc \<longrightarrow>
      Encoder_encode enc y mi ci = ([], Inl ModeMismatch))"
  by (auto simp: EncoderBlock_inference_def Encoder_encode_def check_mode_def and_then_def
      dest!: EncoderBlock_init_mode Encoder_init_mode)

theorem noncausal_rejects_streaming_witness:
  "\<exists>blk enc.
     EncoderBlock_init demo_layers 1 8 2 [1, 3, 9] True ''noncausal'' = Inr blk \<and>
     EncoderBlock_inference blk [[[1, 2, 3, 4]]] = Inl ModeMismatch \<and>
     Encoder_init demo_layers demo_torch 1 1 [2] [8] [] [2] [2] [] 7 True ''noncausal'' = Inr enc \<and>
     Encoder_encode enc [[[1, 2, 3, 4]]] [[]] [[]] = ([], Inl ModeMismatch)"
proof -
  obtain blk where b: "EncoderBlock_init demo_layers 1 8 2 [1, 3, 9] True ''noncausal'' = Inr blk"
    by (simp add: EncoderBlock_init_def)
  obtain enc where e:
    "Encoder_init demo_layers demo_torch 1 1 [2] [8] [] [2] [2] [] 7 True ''noncausal'' = Inr enc"
    by (simp add: Encoder_init_def EncoderBlock_init_def and_then_def Let_def)
  from noncausal_rejects_streaming [of demo_layers 1 8 2 "[1, 3, 9]" True blk "[[[1, 2, 3, 4]]]"
      demo_layers demo_torch 1 1 "[2]" "[8]" "[]" "[2]" "[2]" "[]" 7 True enc "[[[1, 2, 3, 4]]]" "[[]]" "[[]]"]
    b e
  show ?thesis by blast
qed

text \<open>
  C9. On an \<open>Encoder\<close> constructed with mode \<open>causal\<close>, \<open>encode\<close> returns what
  \<open>forward\<close> returns on the same inputs, the raised error included; it differs only
  in what it prints.
\<close>

theorem encode_eq_forward:
  "Encoder_init lib torch ic ec ccr scrs scrr cs sss ssr k b ''causal'' = Inr enc \<Longrightarrow>
   snd (Encoder_encode enc x mi ci) = Encoder_forward enc x mi ci"
  by (auto simp: Encoder_encode_def Encoder_forward_def check_mode_def and_then_def
      dest!: Encoder_init_mode split: sum.splits)

theorem encode_eq_forward_witness:
  "\<exists>enc. Encoder_init demo_layers demo_torch 1 1 [2] [8] [] [2] [2] [] 7 True ''causal'' = Inr enc \<and>
     snd (Encoder_encode enc [[[1, 2, 3, 4]]] [[]] [[]]) = Encoder_forward enc [[[1, 2, 3, 4]]] [[]] [[]] \<and>
     Encoder_forward enc [[[1, 2, 3, 4]]] [[]] [[]]
       = Inr ([[[1, 2, 9, 9, 9, 9]]], [[[1, 2, 3, 4, 7, 7, 7, 7]]])"
proof -
  obtain enc where e:
    "Encoder_init demo_layers demo_torch 1 1 [2] [8] [] [2] [2] [] 7 True ''causal'' = Inr enc"
    by (simp add: Encoder_init_def EncoderBlock_init_def and_then_def Let_def)
  have f: "Encoder_forward enc [[[1, 2, 3, 4]]] [[]] [[]]
       = Inr ([[[1, 2, 9, 9, 9, 9]]], [[[1, 2, 3, 4, 7, 7, 7, 7]]])"
    using e
    by (auto simp: Let_def Encoder_init_def EncoderBlock_init_def and_then_def Encoder_forward_def
        demo_layers_def demo_torch_def demo_conv_def demo_unit_def EncoderBlock_forward_def cat2_def)
  from encode_eq_forward [OF e] e f show ?thesis by blast
qed

section \<open>Properties of the statistics run\<close>

text \<open>
  C1. With an analyzer whose encoder is an \<open>Encoder\<close>, a run over a dataset of one
  utterance or more writes nothing: \<open>audio_analysis\<close> calls the encoder with the
  audio tensor alone, \<open>forward\<close> requires \<open>mi\<close> and \<open>ci\<close> as well, and the call
  raises \<open>TypeError\<close> on the first utterance.
\<close>

theorem run_with_Encoder_raises:
  "run fp (self\<lparr>analyzer := an\<lparr>encoder := Encoder_call enc\<rparr>, dataset := x # xs\<rparr>)
     = (Inl TypeError, [])"
  by (simp add: run_def audio_analysis_def Encoder_call_def and_then_def)

text \<open>
  C3. A run over a dataset without utterances raises and writes no file: the loop
  body never runs, the scalers are unfitted, and reading \<open>scaler_speech.mean_\<close> raises
  \<open>AttributeError\<close> before the first \<open>np.save\<close>.
\<close>

theorem run_empty_dataset_raises:
  "run fp (self\<lparr>dataset := []\<rparr>) = (Inl AttributeError, [])"
  by (simp add: run_def)

section \<open>Shapes of the fitted statistics\<close>

lemma partial_fit_Inr:
  assumes "partial_fit fp self A = Inr s'"
  shows "\<exists>X t. A = Array2 X \<and> well_shaped (length (hd X)) X \<and> s' = Some t \<and>
           length (fitted_mean t) = length (hd X) \<and> length (fitted_scale t) = length (hd X) \<and>
           (\<forall>s. self = Some s \<longrightarrow> length (fitted_mean s) = length (hd X))"
  using assms
  by (auto simp: partial_fit_def well_shaped_def Let_def list_all_iff list_ex_iff
      split: ndarray.splits list.splits if_splits option.splits)

lemma analysis_ok_codes:
  "audio_analysis fp an x = Inr (Array2 X, Array2 Y) \<Longrightarrow>
   speech_code fp an x = X \<and> rir_code fp an x = Y"
  by (simp add: speech_code_def rir_code_def)

lemma loop_shapes:
  assumes "statistic_loop fp an k (x # rest) (s1, s2, idx) = Inr (r1, r2, idx')"
  shows "\<exists>ss sr C1 C2. r1 = Some ss \<and> r2 = Some sr \<and>
           list_all (analysis_ok fp an C1 C2) (x # rest) \<and>
           length (fitted_mean ss) = C1 \<and> length (fitted_scale ss) = C1 \<and>
           length (fitted_mean sr) = C2 \<and> length (fitted_scale sr) = C2 \<and>
           (\<forall>s. s1 = Some s \<longrightarrow> length (fitted_mean s) = C1) \<and>
           (\<forall>s. s2 = Some s \<longrightarrow> length (fitted_mean s) = C2) \<and>
           idx' = Some (k + length rest)"
  using assms
proof (induction rest arbitrary: x s1 s2 k idx)
  case Nil
  from Nil obtain A B t1 t2 where
    a: "audio_analysis fp an x = Inr (A, B)" and
    p1: "partial_fit fp s1 A = Inr t1" and
    p2: "partial_fit fp s2 B = Inr t2" and
    r: "r1 = t1" "r2 = t2" "idx' = Some k"
    by (auto simp: and_then_def split: sum.splits prod.splits)
  from partial_fit_Inr [OF p1] obtain X ss where
    X: "A = Array2 X" "well_shaped (length (hd X)) X" "t1 = Some ss"
       "length (fitted_mean ss) = length (hd X)" "length (fitted_scale ss) = length (hd X)"
       "\<forall>s. s1 = Some s \<longrightarrow> length (fitted_mean s) = length (hd X)"
    by blast
  from partial_fit_Inr [OF p2] obtain Y sr where
    Y: "B = Array2 Y" "well_shaped (length (hd Y)) Y" "t2 = Some sr"
       "length (fitted_mean sr) = length (hd Y)" "length (fitted_scale sr) = length (hd Y)"
       "\<forall>s. s2 = Some s \<longrightarrow> length (fitted_mean s) = length (hd Y)"
    by blast
  have ok: "analysis_ok fp an (length (hd X)) (length (hd Y)) x"
    using a X(1,2) Y(1,2) analysis_ok_codes [of fp an x X Y] by (simp add: analysis_ok_def)
  show ?case
    using r X Y ok by auto
next
  case (Cons y rest)
  from Cons.prems obtain A B t1 t2 where
    a: "audio_analysis fp an x = Inr (A, B)" and
    p1: "partial_fit fp s1 A = Inr t1" and
    p2: "partial_fit fp s2 B = Inr t2" and
    r: "statistic_loop fp an (Suc k) (y # rest) (t1, t2, Some k) = Inr (r1, r2, idx')"
    by (auto simp: and_then_def split: sum.splits prod.splits)
  from partial_fit_Inr [OF p1] obtain X u1 where
    X: "A = Array2 X" "well_shaped (length (hd X)) X" "t1 = Some u1"
       "length (fitted_mean u1) = length (hd X)"
       "\<forall>s. s1 = Some s \<longrightarrow> length (fitted_mean s) = length (hd X)"
    by blast
  from partial_fit_Inr [OF p2] obtain Y u2 where
    Y: "B = Array2 Y" "well_shaped (length (hd Y)) Y" "t2 = Some u2"
       "length (fitted_mean u2) = length (hd Y)"
       "\<forall>s. s2 = Some s \<longrightarrow> length (fitted_mean s) = length (hd Y)"
    by blast
  from Cons.IH [OF r] obtain ss sr C1 C2 where
    ih: "r1 = Some ss" "r2 = Some sr" "list_all (analysis_ok fp an C1 C2) (y # rest)"
        "length (fitted_mean ss) = C1" "length (fitted_scale ss) = C1"
        "length (fitted_mean sr) = C2" "length (fitted_scale sr) = C2"
        "\<forall>s. t1 = Some s \<longrightarrow> length (fitted_mean s) = C1"
        "\<forall>s. t2 = Some s \<longrightarrow> length (fitted_mean s) = C2"
        "idx' = Some (Suc k + length rest)"
    by blast
  have c: "C1 = length (hd X)" "C2 = length (hd Y)"
    using ih(8,9) X(3,4) Y(3,4) by auto
  have ok: "analysis_ok fp an C1 C2 x"
    using a X(1,2) Y(1,2) c analysis_ok_codes [of fp an x X Y] by (simp add: analysis_ok_def)
  show ?case
    using ih ok c X(5) Y(5) by auto
qed

lemmas demo_run_defs = partial_fit_def audio_analysis_def and_then_def demo_analyzer_def
  squeeze0_def transpose10_def incremental_mean_and_var_def column_def Let_def
  is_constant_feature_def handle_zeros_in_scale_def eps_def exact_arithmetic_def

text \<open>
  C7. When \<open>run\<close> returns, the dataset was not empty and exactly two files were
  written, first the speech statistics, then the RIR statistics, each once: a
  \<open>float32\<close> array of two rows, the scaler's mean and the scaler's scale, both of
  the channel count C of that branch's codes, saved with \<open>allow_pickle=False\<close>.
  This holds whatever the rounding of the arithmetic.
\<close>

theorem run_persists_statistics:
  assumes "run fp self = (Inr n, written)"
  shows "dataset self \<noteq> [] \<and> n = length (dataset self) \<and>
     (\<exists>ss sr C_speech C_rir.
        statistic_loop fp (analyzer self) 1 (dataset self) (None, None, None)
          = Inr (Some ss, Some sr, Some n) \<and>
        list_all (analysis_ok fp (analyzer self) C_speech C_rir) (dataset self) \<and>
        written = [\<lparr>path = stats_path_speech self, file_dtype = Float32,
                   rows = [map (float32 fp) (fitted_mean ss), map (float32 fp) (fitted_scale ss)],
                   allow_pickle = False\<rparr>,
                 \<lparr>path = stats_path_rir self, file_dtype = Float32,
                   rows = [map (float32 fp) (fitted_mean sr), map (float32 fp) (fitted_scale sr)],
                   allow_pickle = False\<rparr>] \<and>
        length (fitted_mean ss) = C_speech \<and> length (fitted_scale ss) = C_speech \<and>
        length (fitted_mean sr) = C_rir \<and> length (fitted_scale sr) = C_rir)"
proof -
  from assms obtain ss sr where
    loop: "statistic_loop fp (analyzer self) 1 (dataset self) (None, None, None)
             = Inr (Some ss, Some sr, Some n)" and
    written: "written = [np_save_float32 (float32 fp) (stats_path_speech self) [fitted_mean ss, fitted_scale ss],
                     np_save_float32 (float32 fp) (stats_path_rir self) [fitted_mean sr, fitted_scale sr]]"
    by (auto simp: run_def np_stack_def Let_def split: sum.splits option.splits if_splits)
  have ne: "dataset self \<noteq> []" using loop by (cases "dataset self") auto
  then obtain x rest where ds: "dataset self = x # rest" by (cases "dataset self") auto
  from loop_shapes [OF loop [unfolded ds]]
  obtain C1 C2 where ok: "list_all (analysis_ok fp (analyzer self) C1 C2) (dataset self)"
    and l: "length (fitted_mean ss) = C1" "length (fitted_scale ss) = C1"
           "length (fitted_mean sr) = C2" "length (fitted_scale sr) = C2"
    and n: "n = length (dataset self)"
    unfolding ds by auto
  have f: "written = [\<lparr>path = stats_path_speech self, file_dtype = Float32,
                   rows = [map (float32 fp) (fitted_mean ss), map (float32 fp) (fitted_scale ss)],
                   allow_pickle = False\<rparr>,
                 \<lparr>path = stats_path_rir self, file_dtype = Float32,
                   rows = [map (float32 fp) (fitted_mean sr), map (float32 fp) (fitted_scale sr)],
                   allow_pickle = False\<rparr>]"
    using written by (simp add: np_save_float32_def)
  from ne n loop ok f l show ?thesis by blast
qed

theorem run_persists_statistics_witness:
  "run exact_arithmetic \<lparr>stats_path_speech = ''stats/speech.npy'', stats_path_rir = ''stats/rir.npy'',
                 analyzer = demo_analyzer, dataset = [[[1, 4], [3, 8]]]\<rparr>
     = (Inr 1, [\<lparr>path = ''stats/speech.npy'', file_dtype = Float32, rows = [[2, 6], [1, 2]],
                  allow_pickle = False\<rparr>,
                \<lparr>path = ''stats/rir.npy'', file_dtype = Float32, rows = [[2, 6], [1, 2]],
                  allow_pickle = False\<rparr>]) \<and>
   (\<exists>ss sr. statistic_loop exact_arithmetic demo_analyzer 1 [[[1, 4], [3, 8]]] (None, None, None)
              = Inr (Some ss, Some sr, Some 1) \<and>
            length (fitted_mean ss) = 2 \<and> length (fitted_mean sr) = 2)"
proof -
  define self where "self = \<lparr>stats_path_speech = ''stats/speech.npy'',
    stats_path_rir = ''stats/rir.npy'', analyzer = demo_analyzer, dataset = [[[1, 4], [3, 8::real]]]\<rparr>"
  have four: "sqrt 4 = 2" using real_sqrt_abs [of 2] by simp
  have r: "run exact_arithmetic self
     = (Inr 1, [\<lparr>path = ''stats/speech.npy'', file_dtype = Float32, rows = [[2, 6], [1, 2]],
                  allow_pickle = False\<rparr>,
                \<lparr>path = ''stats/rir.npy'', file_dtype = Float32, rows = [[2, 6], [1, 2]],
                  allow_pickle = False\<rparr>])"
    by (simp add: self_def run_def demo_run_defs np_stack_def np_save_float32_def four)
  have "\<exists>ss sr. statistic_loop exact_arithmetic demo_analyzer 1 [[[1, 4], [3, 8]]] (None, None, None)
              = Inr (Some ss, Some sr, Some 1) \<and>
            length (fitted_mean ss) = 2 \<and> length (fitted_mean sr) = 2"
    using run_persists_statistics [OF r]
    by (auto simp: self_def exact_arithmetic_def dest!: arg_cong [where f = length and x = "[2, 6]"])
  with r show ?thesis by (simp add: self_def)
qed

text \<open>
  A channel that takes one value only gets the scale 1, not its standard deviation 0;
  every operation in this computation is exact in 64-bit floats too.
\<close>

lemma partial_fit_constant_channel:
  "partial_fit exact_arithmetic None (Array2 [[5, 1], [5, 3]])
     = Inr (Some \<lparr>fitted_mean = [5, 2], fitted_var = [0, 1], fitted_scale = [1, 1],
                   n_samples_seen = 2\<rparr>)"
  by (simp add: demo_run_defs)

section \<open>Properties of the shapes\<close>

lemma conv_out_fits:
  "0 < n \<Longrightarrow> k \<le> 2 * p + 1 \<Longrightarrow> conv_out n k s p = Inr ((n + 2 * p - k) div s + 1)"
  by (simp add: conv_out_def)

lemma Conv2d_fits:
  "0 < H \<Longrightarrow> 0 < W \<Longrightarrow> k \<le> 2 * p + 1 \<Longrightarrow>
   Conv2d cin cout k s p (B, cin, H, W)
     = Inr (B, cout, (H + 2 * p - k) div s + 1, (W + 2 * p - k) div s + 1)"
  by (simp add: Conv2d_def conv_out_fits and_then_def)

lemma BatchNorm2d_eq:
  "BatchNorm2d training c (B, c, h, w) = (if bn_ok training B h w then Inr (B, c, h, w) else Inl ValueError)"
  by (auto simp: BatchNorm2d_def bn_ok_def)

lemma BasicBlock_shape:
  assumes "0 < H" "0 < W"
  shows "BasicBlock training cin cout s (B, cin, H, W)
         = (if bn_ok training B ((H - 1) div s + 1) ((W - 1) div s + 1)
            then Inr (B, cout, (H - 1) div s + 1, (W - 1) div s + 1) else Inl ValueError)"
proof -
  have c1: "Conv2d cin cout 3 s 1 (B, cin, H, W) = Inr (B, cout, (H - 1) div s + 1, (W - 1) div s + 1)"
    using Conv2d_fits [OF assms, of 3 1 cin cout s B] assms by simp
  have c2: "Conv2d cout cout 3 1 1 (B, cout, (H - 1) div s + 1, (W - 1) div s + 1)
              = Inr (B, cout, (H - 1) div s + 1, (W - 1) div s + 1)"
    using Conv2d_fits [of "(H - 1) div s + 1" "(W - 1) div s + 1" 3 1 cout cout 1 B] by simp
  have d: "Conv2d cin cout 1 s 0 (B, cin, H, W) = Inr (B, cout, (H - 1) div s + 1, (W - 1) div s + 1)"
    using Conv2d_fits [OF assms, of 1 0 cin cout s B] by simp
  show ?thesis
    using assms
    by (auto simp add: BasicBlock_def c1 c2 d and_then_def BatchNorm2d_eq simp del: One_nat_def)
qed

lemma make_layer_shape:
  assumes "0 < H" "0 < W"
  shows "make_layer training cin cout s (B, cin, H, W)
         = (if bn_ok training B ((H - 1) div s + 1) ((W - 1) div s + 1)
            then Inr (B, cout, (H - 1) div s + 1, (W - 1) div s + 1) else Inl ValueError)"
  using BasicBlock_shape [OF assms, of training cin cout s B]
    BasicBlock_shape [of "(H - 1) div s + 1" "(W - 1) div s + 1" training cout cout 1 B]
  by (simp add: make_layer_def and_then_def del: One_nat_def)

lemma halve_pos: "0 < halve n"
  by (simp add: halve_def)

lemma bn_ok_halve:
  "0 < h \<Longrightarrow> 0 < w \<Longrightarrow> bn_ok training B (halve h) (halve w) \<Longrightarrow> bn_ok training B h w"
  by (auto simp: bn_ok_def halve_def)

lemma feature_extraction_shape:
  assumes "0 < H" "0 < W"
  shows "feature_extraction training (B, 3, H, W)
         = (if bn_ok training B (layer4_size H) (layer4_size W) then Inr (B, 512, 1, 1)
            else Inl ValueError)"
proof -
  define h1 where "h1 = halve H"
  define w1 where "w1 = halve W"
  define h2 where "h2 = halve h1"
  define w2 where "w2 = halve w1"
  define h3 where "h3 = halve h2"
  define w3 where "w3 = halve w2"
  define h4 where "h4 = halve h3"
  define w4 where "w4 = halve w3"
  define h5 where "h5 = halve h4"
  define w5 where "w5 = halve w4"
  note defs = h1_def w1_def h2_def w2_def h3_def w3_def h4_def w4_def h5_def w5_def
  have pos: "0 < h1" "0 < w1" "0 < h2" "0 < w2" "0 < h3" "0 < w3" "0 < h4" "0 < w4" "0 < h5" "0 < w5"
    by (simp_all add: defs halve_pos)
  have l4: "layer4_size H = h5" "layer4_size W = w5"
    by (simp_all add: layer4_size_def defs)
  have c: "Conv2d 3 64 7 2 3 (B, 3, H, W) = Inr (B, 64, h1, w1)"
    using Conv2d_fits [OF assms, of 7 3 3 64 2 B] by (simp add: h1_def w1_def halve_def)
  have m: "MaxPool2d 3 2 1 (B, 64, h1, w1) = Inr (B, 64, h2, w2)"
    using pos(1,2) by (simp add: MaxPool2d_def conv_out_fits and_then_def h2_def w2_def halve_def)
  have l1: "make_layer training 64 64 1 (B, 64, h2, w2)
            = (if bn_ok training B h2 w2 then Inr (B, 64, h2, w2) else Inl ValueError)"
    using make_layer_shape [OF pos(3,4), of training 64 64 1 B] pos(3,4) by simp
  have l2: "make_layer training 64 128 2 (B, 64, h2, w2)
            = (if bn_ok training B h3 w3 then Inr (B, 128, h3, w3) else Inl ValueError)"
    using make_layer_shape [OF pos(3,4), of training 64 128 2 B] by (simp add: h3_def w3_def halve_def)
  have l3: "make_layer training 128 256 2 (B, 128, h3, w3)
            = (if bn_ok training B h4 w4 then Inr (B, 256, h4, w4) else Inl ValueError)"
    using make_layer_shape [OF pos(5,6), of training 128 256 2 B] by (simp add: h4_def w4_def halve_def)
  have l4': "make_layer training 256 512 2 (B, 256, h4, w4)
            = (if bn_ok training B h5 w5 then Inr (B, 512, h5, w5) else Inl ValueError)"
    using make_layer_shape [OF pos(7,8), of training 256 512 2 B] by (simp add: h5_def w5_def halve_def)
  have mono: "bn_ok training B h5 w5 \<Longrightarrow>
      bn_ok training B h4 w4 \<and> bn_ok training B h3 w3 \<and> bn_ok training B h2 w2 \<and> bn_ok training B h1 w1"
    using bn_ok_halve [OF pos(7,8), of training B] bn_ok_halve [OF pos(5,6), of training B]
      bn_ok_halve [OF pos(3,4), of training B] bn_ok_halve [OF pos(1,2), of training B]
    by (simp add: defs)
  show ?thesis
  proof (cases "bn_ok training B h5 w5")
    case True
    with mono pos(9,10) show ?thesis
      by (simp add: feature_extraction_def c m l1 l2 l3 l4' l4 and_then_def BatchNorm2d_eq
          AdaptiveAvgPool2d_1_def del: One_nat_def)
  next
    case False
    then show ?thesis
      by (simp add: feature_extraction_def c m l1 l2 l3 l4' l4 and_then_def BatchNorm2d_eq
          del: One_nat_def)
  qed
qed

text \<open>
  C5, as amended. For every batch size \<open>B\<close> and every image size with at least one
  row and one column, both visual networks map the shape (B, 3, H, W) to
  (B, 512, 4) in evaluation mode, and in training mode, in which the module is
  constructed, unless the last feature map holds one value per channel: a batch of
  one image whose last feature map is 1 x 1, that is, an image of at most 32 x 32.
  Then the call raises \<open>ValueError\<close>.
\<close>

theorem visual_embedding_shape:
  assumes "0 < H" "0 < W"
  shows "VISURAL_RES_NET1_forward training (B, 3, H, W)
           = (if training \<and> B * layer4_size H * layer4_size W = 1 then Inl ValueError
              else Inr [B, 512, 4]) \<and>
         VISURAL_RES_NET2_forward training (B, 3, H, W)
           = (if training \<and> B * layer4_size H * layer4_size W = 1 then Inl ValueError
              else Inr [B, 512, 4])"
  by (simp add: VISURAL_RES_NET1_forward_def VISURAL_RES_NET2_forward_def
      feature_extraction_shape [OF assms] bn_ok_def
      and_then_def squeeze_last_def Linear_def shape_item_def reshape_def cat_dim2_def Let_def)

theorem visual_embedding_shape_witness:
  "(0::nat) < 224 \<and> (0::nat) < 160 \<and>
   VISURAL_RES_NET1_forward True (1, 3, 224, 160) = Inr [1, 512, 4] \<and>
   VISURAL_RES_NET2_forward True (1, 3, 224, 160) = Inr [1, 512, 4] \<and>
   VISURAL_RES_NET1_forward False (1, 3, 32, 32) = Inr [1, 512, 4]"
  using visual_embedding_shape [of 224 160 True 1] visual_embedding_shape [of 32 32 False 1]
  by (simp add: layer4_size_def halve_def)

text \<open>
  C5 as stated fails in training mode on one image of 32 x 32, a size the backbone
  accepts: a batch of two such images passes.
\<close>

theorem visual_embedding_training_counterexample:
  "VISURAL_RES_NET1_forward True (1, 3, 32, 32) = Inl ValueError \<and>
   VISURAL_RES_NET1_forward True (2, 3, 32, 32) = Inr [2, 512, 4]"
  using feature_extraction_shape [of 32 32 True 1] feature_extraction_shape [of 32 32 True 2]
  by (simp add: VISURAL_RES_NET1_forward_def bn_ok_def layer4_size_def halve_def
      and_then_def squeeze_last_def Linear_def shape_item_def reshape_def cat_dim2_def Let_def)

lemma forward_each_preserved:
  "set idxs \<subseteq> {..<length ms} \<Longrightarrow> (\<And>i. i < length ms \<Longrightarrow> forward (ms ! i) x = Inr x) \<Longrightarrow>
   forward_each ms idxs x = Inr x"
  by (induction idxs) (auto simp: and_then_def)

lemma EncoderBlock_init_spec:
  "EncoderBlock_init (spec_layers g) cin cout stride dilations bias md = Inr blk \<Longrightarrow>
   length (res_units blk) = length dilations \<and> num_res blk = length dilations \<and>
   (\<forall>i<length dilations. forward (res_units blk ! i) = residual_shape cin) \<and>
   forward (EncoderBlock.conv blk) = conv_shape g cin cout stride"
  by (auto simp: EncoderBlock_init_def spec_layers_def Let_def CausalResidualUnit_shape_def
      NonCausalResidualUnit_shape_def CausalConv1d_shape_def NonCausalConv1d_shape_def
      split: if_splits)

text \<open>
  C6. With residual units and a strided convolution as the spec describes them, an
  \<open>EncoderBlock\<close> of either mode and any dilations takes (B, Cin, T), with T
  divisible by the stride, to (B, Cout, T div stride).
\<close>

theorem EncoderBlock_forward_length:
  assumes "EncoderBlock_init (spec_layers g) cin cout stride dilations bias md = Inr blk"
    and "0 < stride" and "stride dvd T"
  shows "EncoderBlock_forward blk [B, cin, T] = Inr [B, cout, T div stride]"
proof -
  note i = EncoderBlock_init_spec [OF assms(1)]
  have "forward_each (res_units blk) [0..<num_res blk] [B, cin, T] = Inr [B, cin, T]"
    by (rule forward_each_preserved) (auto simp: i residual_shape_def)
  then show ?thesis
    using assms(2,3) by (simp add: EncoderBlock_forward_def and_then_def i conv_shape_def)
qed

theorem EncoderBlock_forward_length_witness:
  "\<exists>blk. EncoderBlock_init (spec_layers no_length) 4 8 5 [1, 3, 9] True ''noncausal'' = Inr blk \<and>
     (0::nat) < 5 \<and> (5::nat) dvd 100 \<and>
     EncoderBlock_forward blk [2, 4, 100] = Inr [2, 8, 20]"
proof -
  obtain blk where b:
    "EncoderBlock_init (spec_layers no_length) 4 8 5 [1, 3, 9] True ''noncausal'' = Inr blk"
    by (simp add: EncoderBlock_init_def)
  have s: "(0::nat) < 5" and d: "(5::nat) dvd 100" by simp_all
  from EncoderBlock_forward_length [OF b s d, of 2] b show ?thesis by simp
qed

section \<open>Properties of the test driver\<close>

lemma lookup_data_path:
  "lookup_name [(''subset'', a), (''audio_rs_dir'', b), (''audio_material_dir'', c),
                (''audio_image_dir'', d)] ''data_path'' = Inl NameError"
  by (simp add: lookup_name_def codecTest_globals_def)

lemma subset_dir_eq:
  "subset_dir self subset_name =
     (case config self of
        None \<Rightarrow> Inl AttributeError
      | Some c \<Rightarrow>
         (case c ''data'' of
            None \<Rightarrow> Inl KeyError
          | Some d \<Rightarrow>
             (case d ''subset'' of
                None \<Rightarrow> Inl KeyError
              | Some s \<Rightarrow> (case s subset_name of None \<Rightarrow> Inl KeyError | Some dir \<Rightarrow> Inr dir))))"
  by (simp add: subset_dir_def getattr_def getitem_def and_then_def split: option.splits)

text \<open>
  C10, as amended. \<open>TestMain.load_dataset\<close> raises on every input, before the
  dataset is constructed. The error is that of the first lookup that fails:
  \<open>AttributeError\<close> when the driver has no \<open>config\<close>, \<open>KeyError\<close> when the
  configuration lacks \<open>data\<close>, \<open>subset\<close> or the subset name, \<open>AttributeError\<close> when
  one of the three path attributes is not set. When every lookup succeeds, the
  \<open>assert\<close> raises \<open>NameError\<close> on \<open>data_path\<close>.
\<close>

theorem load_dataset_never_succeeds:
  "load_dataset exists self subset_name n =
     (case config self of
        None \<Rightarrow> Inl AttributeError
      | Some c \<Rightarrow>
         (case c ''data'' of
            None \<Rightarrow> Inl KeyError
          | Some d \<Rightarrow>
             (case d ''subset'' of
                None \<Rightarrow> Inl KeyError
              | Some s \<Rightarrow>
                 (case s subset_name of
                    None \<Rightarrow> Inl KeyError
                  | Some dir \<Rightarrow>
                      if data_reverb_path self = None \<or> data_material_path self = None
                         \<or> data_image_path self = None
                      then Inl AttributeError
                      else Inl NameError))))"
  by (auto simp: load_dataset_def lookup_data_path and_then_def Let_def subset_dir_eq getattr_def
      split: option.splits)

theorem load_dataset_never_succeeds_witness:
  "load_dataset every_path_exists demo_test_main ''test'' (- 1) = Inl NameError \<and>
   load_dataset every_path_exists demo_test_main ''valid'' (- 1) = Inl KeyError \<and>
   load_dataset every_path_exists (demo_test_main\<lparr>data_image_path := None\<rparr>) ''test'' (- 1)
     = Inl AttributeError \<and>
   load_dataset every_path_exists (demo_test_main\<lparr>config := None\<rparr>) ''test'' (- 1)
     = Inl AttributeError"
  using load_dataset_never_succeeds [of every_path_exists demo_test_main "''test''" "- 1"]
    load_dataset_never_succeeds [of every_path_exists demo_test_main "''valid''" "- 1"]
    load_dataset_never_succeeds [of every_path_exists "demo_test_main\<lparr>data_image_path := None\<rparr>"
      "''test''" "- 1"]
    load_dataset_never_succeeds [of every_path_exists "demo_test_main\<lparr>config := None\<rparr>"
      "''test''" "- 1"]
  by (simp add: demo_test_main_def demo_config_def)

text \<open>
  C10 as stated, for every subset name, fails on a subset the configuration does not
  know: the first lookup raises \<open>KeyError\<close>, and the \<open>assert\<close> is not reached.
\<close>

theorem load_dataset_unknown_subset_counterexample:
  "load_dataset every_path_exists demo_test_main ''valid'' (- 1) = Inl KeyError \<and>
   load_dataset every_path_exists demo_test_main ''valid'' (- 1) \<noteq> Inl NameError"
  by (simp add: load_dataset_def subset_dir_def demo_test_main_def demo_config_def getattr_def
      getitem_def and_then_def)

end
